theory Spec2Isabelle
  imports Main "HOL-Library.AList"
begin

section \<open>Exceptions, paths and Python values\<close>

text \<open>
  Python exceptions are values: a function that may raise returns a sum whose left
  injection is the exception. \<open>OtherError\<close> stands for every exception class the program
  does not name (FileNotFoundError, SyntaxError, NameError, ...).
\<close>

datatype exn = AttributeError | KeyError | TypeError | ValueError | URIError | OtherError string

text \<open>
  A \<open>pathlib.Path\<close>: whether it starts at the file system root, and its segments.
  \<open>p / seg\<close> is \<open>joinpath\<close>, \<open>p.parents\<close> lists the lexical ancestors (nearest first),
  \<open>p.name\<close> is the last segment and \<open>p.suffix\<close> what follows the last dot of the name,
  the dot included, when that dot is neither the first nor the last character;
  \<open>p.stem\<close> is the name without that suffix.
\<close>

datatype path = Path (anchored: bool) (parts: "string list")

definition joinpath :: "path \<Rightarrow> string \<Rightarrow> path" where
  "joinpath p seg = Path (anchored p) (parts p @ [seg])"

definition parents :: "path \<Rightarrow> path list" where
  "parents p = map (\<lambda>n. Path (anchored p) (take n (parts p))) (rev [0..<length (parts p)])"

definition name :: "path \<Rightarrow> string" where
  "name p = (if parts p = [] then [] else last (parts p))"

definition rfind_dot :: "string \<Rightarrow> nat option" where
  "rfind_dot s =
     (let k = length (takeWhile (\<lambda>c. c \<noteq> CHR ''.'') (rev s))
      in if k = length s then None else Some (length s - 1 - k))"

definition suffix :: "path \<Rightarrow> string" where
  "suffix p =
     (let n = name p
      in case rfind_dot n of
           None \<Rightarrow> []
         | Some i \<Rightarrow> if 0 < i \<and> i < length n - 1 then drop i n else [])"

definition stem :: "path \<Rightarrow> string" where
  "stem p =
     (let n = name p
      in case rfind_dot n of
           None \<Rightarrow> n
         | Some i \<Rightarrow> if 0 < i \<and> i < length n - 1 then take i n else n)"

text \<open>
  Python objects as far as \<open>uri_checker\<close> tells them apart: a string is never the
  singleton \<open>True\<close>, which is what \<open>x is not True\<close> asks.
\<close>

datatype pyobj = Str string | Bool bool

definition is_not_True :: "pyobj \<Rightarrow> bool" where
  "is_not_True v = (v \<noteq> Bool True)"

section \<open>react/tools.py: uri_checker\<close>

text \<open>
  The result of \<open>urllib.parse.urlparse\<close>, of which the function reads two fields. The
  parser belongs to the standard library: it is a parameter, and it may raise.
\<close>

record parse_result =
  scheme :: string
  netloc :: string
  path :: string

definition uri_checker :: "(string \<Rightarrow> exn + parse_result) \<Rightarrow> string \<Rightarrow> exn + string" where
  "uri_checker urlparse uri =
     (if uri = [] then Inr []
      else case urlparse uri of
             Inl e \<Rightarrow> Inl e
           | Inr slobypy_result \<Rightarrow>
               if path slobypy_result \<noteq> [] \<and> is_not_True (Str (scheme slobypy_result))
               then Inr uri
               else Inl URIError)"

section \<open>manager.py: the state of the interpreter and of the orchestrator\<close>

text \<open>
  One entry of \<open>SlApp._components\<close>: a dict with the keys \<open>uri\<close>, \<open>component\<close> (a class,
  here its identity) and \<open>source_path\<close>.
\<close>

record registration =
  uri :: string
  component :: nat
  source_path :: path

text \<open>
  The keys of the \<open>modules\<close> dict. \<open>run\<close> stores the main module under the bound method
  \<open>path.resolve\<close> (two bound methods are equal when their objects are), every other
  key is the value of \<open>path.resolve()\<close>. A value is a module object (its identity) or
  \<open>None\<close>, which \<open>import_file\<close> returns after an AttributeError.
\<close>

datatype key = ResolveMethod path | ResolvedPath path

datatype pymodule = Module nat | PyNone

text \<open>
  What executed code can read and change: \<open>components\<close> is the global list
  \<open>SlApp._components\<close>, \<open>sys_modules\<close> is the dict \<open>sys.modules\<close> (module objects by
  their identity), \<open>meta_path\<close> holds the \<open>ModuleFinder\<close> objects that \<open>import_file\<close>
  appends to \<open>sys.meta_path\<close>, each given by its \<open>path_map\<close>, and \<open>world\<close> is everything
  else (the files, the module objects themselves).
\<close>

record 'w globals =
  components :: "registration list"
  sys_modules :: "(string \<times> nat) list"
  meta_path :: "(string \<times> path) list list"
  world :: 'w

text \<open>
  The \<open>SloDash\<close> object on top of the globals: \<open>dash_path\<close> is \<open>self.path\<close>, \<open>modules\<close>
  is \<open>self.modules\<close> (a dict, kept in insertion order), and \<open>sent\<close> logs the arguments of
  the calls \<open>self.rpc.hot_reload_routes(routes)\<close>, oldest first. The RPC object is not
  part of this module: its call is taken to return.
\<close>

record 'w state = "'w globals" +
  dash_path :: path
  modules :: "(key \<times> pymodule) list"
  sent :: "string list list"

definition globals_of :: "'w state \<Rightarrow> 'w globals" where
  "globals_of st =
     \<lparr>components = components st, sys_modules = sys_modules st, meta_path = meta_path st,
      world = world st\<rparr>"

definition set_globals :: "'w globals \<Rightarrow> 'w state \<Rightarrow> 'w state" where
  "set_globals g st =
     st\<lparr>components := components g, sys_modules := sys_modules g, meta_path := meta_path g,
        world := world g\<rparr>"

text \<open>
  What the program takes from the standard library and the file system:
  \<open>Path.resolve\<close>; whether \<open>importlib.util.spec_from_file_location(name, location)\<close>
  returns a spec (it returns \<open>None\<close> for a file name no loader takes); the identity of
  the module object \<open>module_from_spec\<close> creates; \<open>spec.loader.exec_module(module)\<close>, which
  reads and executes the file in the module; and \<open>importlib.reload\<close> of a module object.
  Executing code may register components, import modules and change the world, also when
  it raises.
\<close>

record 'w env =
  resolve :: "path \<Rightarrow> path"
  spec_from_file_location :: "string \<Rightarrow> path \<Rightarrow> bool"
  module_from_spec :: "'w globals \<Rightarrow> nat"
  exec_module :: "string \<Rightarrow> path \<Rightarrow> nat \<Rightarrow> 'w globals \<Rightarrow> exn option \<times> 'w globals"
  reload_module :: "nat \<Rightarrow> 'w globals \<Rightarrow> (exn + nat) \<times> 'w globals"

section \<open>manager.py: import_file and reload\<close>

text \<open>
  The body of the \<open>try\<close> in \<open>import_file\<close>, line by line: without a spec,
  \<open>module_from_spec(None)\<close> raises AttributeError; otherwise the finder is appended to
  \<open>sys.meta_path\<close> and the new module is bound in \<open>sys.modules\<close> under the stem of the
  file before the file is executed.
\<close>

definition import_file_try ::
  "'w env \<Rightarrow> path \<Rightarrow> 'w globals \<Rightarrow> (exn + pymodule) \<times> 'w globals" where
  "import_file_try env p g =
     (if \<not> spec_from_file_location env (stem p) (resolve env p) then (Inl AttributeError, g)
      else
        (let module = module_from_spec env g;
             g1 = g\<lparr>meta_path := meta_path g @ [[(stem p, resolve env p)]]\<rparr>;
             g2 = g1\<lparr>sys_modules := AList.update (stem p) module (sys_modules g1)\<rparr>
         in case exec_module env (stem p) (resolve env p) module g2 of
              (Some e, g3) \<Rightarrow> (Inl e, g3)
            | (None, g3) \<Rightarrow> (Inr (Module module), g3)))"

text \<open>\<open>except AttributeError\<close>: the message is printed and \<open>None\<close> is returned.\<close>

definition import_file ::
  "'w env \<Rightarrow> path \<Rightarrow> 'w globals \<Rightarrow> (exn + pymodule) \<times> 'w globals" where
  "import_file env p g =
     (case import_file_try env p g of
        (Inl e, g') \<Rightarrow> if e = AttributeError then (Inr PyNone, g') else (Inl e, g')
      | (Inr module, g') \<Rightarrow> (Inr module, g'))"

text \<open>\<open>importlib.reload\<close> raises TypeError when its argument is not a module.\<close>

definition reload ::
  "'w env \<Rightarrow> pymodule \<Rightarrow> 'w globals \<Rightarrow> (exn + pymodule) \<times> 'w globals" where
  "reload env module g =
     (case module of
        PyNone \<Rightarrow> (Inl TypeError, g)
      | Module h \<Rightarrow>
          (case reload_module env h g of
             (Inr h', g') \<Rightarrow> (Inr (Module h'), g')
           | (Inl e, g') \<Rightarrow> (Inl e, g')))"

section \<open>manager.py: the watch callbacks\<close>

datatype callback = Watch_component_added | Watch_component_modified | Empty_list_callback

definition watch_callbacks :: "(string \<times> callback) list list" where
  "watch_callbacks =
     [[(''added'', Watch_component_added),
       (''modified'', Watch_component_modified),
       (''removed'', Watch_component_modified)]]"

definition dict_get :: "(string \<times> callback) list \<Rightarrow> string \<Rightarrow> callback \<Rightarrow> callback" where
  "dict_get d k dflt = (case map_of d k of None \<Rightarrow> dflt | Some v \<Rightarrow> v)"

text \<open>\<open>list.remove(x)\<close> deletes the first element equal to \<open>x\<close> and raises when there is none.\<close>

definition list_remove :: "'a \<Rightarrow> 'a list \<Rightarrow> exn + 'a list" where
  "list_remove x xs = (if x \<in> set xs then Inr (remove1 x xs) else Inl ValueError)"

definition watch_component_added ::
  "'w env \<Rightarrow> path \<Rightarrow> path \<Rightarrow> registration list \<Rightarrow> (exn + string list) \<times> registration list" where
  "watch_component_added env self_path p comps =
     (if resolve env (joinpath self_path ''components'') \<in> set (parents p)
      then (Inr (map uri (filter (\<lambda>c. source_path c = p) comps)), comps)
      else (Inr [], comps))"

text \<open>
  The loop of \<open>watch_component_modified\<close>: it walks a copy of the list and removes from
  the live list; \<open>routes\<close> grows by \<open>append\<close>.
\<close>

fun modified_loop ::
  "'w env \<Rightarrow> path \<Rightarrow> registration list \<Rightarrow> registration list \<Rightarrow> string list
     \<Rightarrow> (exn + string list) \<times> registration list" where
  "modified_loop env p [] live routes = (Inr routes, live)"
| "modified_loop env p (c # copy) live routes =
     (if resolve env (source_path c) = resolve env p
      then (case list_remove c live of
              Inl e \<Rightarrow> (Inl e, live)
            | Inr live' \<Rightarrow> modified_loop env p copy live' (routes @ [uri c]))
      else modified_loop env p copy live routes)"

definition watch_component_modified ::
  "'w env \<Rightarrow> path \<Rightarrow> path \<Rightarrow> registration list \<Rightarrow> (exn + string list) \<times> registration list" where
  "watch_component_modified env self_path p comps =
     (if resolve env (joinpath self_path ''components'') \<in> set (parents p)
      then modified_loop env p comps comps []
      else (Inr [], comps))"

definition empty_list_callback ::
  "'w env \<Rightarrow> path \<Rightarrow> path \<Rightarrow> registration list \<Rightarrow> (exn + string list) \<times> registration list" where
  "empty_list_callback env self_path p comps = (Inr [], comps)"

fun call ::
  "callback \<Rightarrow> 'w env \<Rightarrow> path \<Rightarrow> path \<Rightarrow> registration list
     \<Rightarrow> (exn + string list) \<times> registration list" where
  "call Watch_component_added = watch_component_added"
| "call Watch_component_modified = watch_component_modified"
| "call Empty_list_callback = empty_list_callback"

text \<open>
  \<open>for callback in self.watch_callbacks: routes.extend(await (callback.get(k,
  self.empty_list_callback))(path))\<close>
\<close>

fun run_callbacks ::
  "'w env \<Rightarrow> path \<Rightarrow> string \<Rightarrow> (string \<times> callback) list list \<Rightarrow> path \<Rightarrow> string list
     \<Rightarrow> registration list \<Rightarrow> (exn + string list) \<times> registration list" where
  "run_callbacks env self_path k [] p routes comps = (Inr routes, comps)"
| "run_callbacks env self_path k (cb # cbs) p routes comps =
     (case call (dict_get cb k Empty_list_callback) env self_path p comps of
        (Inl e, comps') \<Rightarrow> (Inl e, comps')
      | (Inr r, comps') \<Rightarrow> run_callbacks env self_path k cbs p (routes @ r) comps')"

section \<open>manager.py: watch_root\<close>

text \<open>
  The branch taken for one change whose path has the suffix \<open>.py\<close>, up to the call of the
  RPC: the routes computed, or the exception that leaves the loop, and the state
  reached. \<open>change[0]._value_\<close> is an integer: 1 is Added, 2 is Modified, everything else
  takes the last branch.
\<close>

definition handle_change ::
  "'w env \<Rightarrow> int \<times> path \<Rightarrow> 'w state \<Rightarrow> (exn + string list) \<times> 'w state" where
  "handle_change env change st =
     (let p = snd change; k = ResolvedPath (resolve env p) in
      if fst change = 1 then
        (case import_file env p (globals_of st) of
           (Inl e, g) \<Rightarrow> (Inl e, set_globals g st)
         | (Inr m, g) \<Rightarrow>
             (case run_callbacks env (dash_path st) ''added'' watch_callbacks p [] (components g) of
                (r, cs) \<Rightarrow>
                  (r, (set_globals g st)\<lparr>modules := AList.update k m (modules st),
                                           components := cs\<rparr>)))
      else if fst change = 2 then
        (case run_callbacks env (dash_path st) ''modified'' watch_callbacks p [] (components st) of
           (Inl e, cs) \<Rightarrow> (Inl e, st\<lparr>components := cs\<rparr>)
         | (Inr routes, cs) \<Rightarrow>
             (case map_of (modules st) k of
                None \<Rightarrow> (Inl KeyError, st\<lparr>components := cs\<rparr>)
              | Some module \<Rightarrow>
                  (case reload env module ((globals_of st)\<lparr>components := cs\<rparr>) of
                     (Inl e, g) \<Rightarrow> (Inl e, set_globals g st)
                   | (Inr module', g) \<Rightarrow>
                       (Inr routes,
                        (set_globals g st)\<lparr>modules := AList.update k module' (modules st)\<rparr>))))
      else
        (case run_callbacks env (dash_path st) ''deleted'' watch_callbacks p [] (components st) of
           (Inl e, cs) \<Rightarrow> (Inl e, st\<lparr>components := cs\<rparr>)
         | (Inr routes, cs) \<Rightarrow>
             (case map_of (modules st) k of
                None \<Rightarrow> (Inl KeyError, st\<lparr>components := cs\<rparr>)
              | Some module \<Rightarrow>
                  (Inr routes, st\<lparr>modules := AList.delete k (modules st), components := cs\<rparr>))))"

text \<open>
  The body of \<open>for change in changes\<close>: a path with another suffix is skipped without a
  call of the RPC; otherwise the routes are sent once the branch has returned.
\<close>

definition watch_change :: "'w env \<Rightarrow> int \<times> path \<Rightarrow> 'w state \<Rightarrow> exn option \<times> 'w state" where
  "watch_change env change st =
     (if suffix (snd change) = ''.py''
      then (case handle_change env change st of
              (Inl e, st') \<Rightarrow> (Some e, st')
            | (Inr routes, st') \<Rightarrow> (None, st'\<lparr>sent := sent st' @ [routes]\<rparr>))
      else (None, st))"

text \<open>
  One batch, in the order in which the loop visits its changes, and the batches the
  watcher yields one after the other. An exception ends both loops.
\<close>

fun watch_changes :: "'w env \<Rightarrow> (int \<times> path) list \<Rightarrow> 'w state \<Rightarrow> exn option \<times> 'w state" where
  "watch_changes env [] st = (None, st)"
| "watch_changes env (change # changes) st =
     (case watch_change env change st of
        (Some e, st') \<Rightarrow> (Some e, st')
      | (None, st') \<Rightarrow> watch_changes env changes st')"

fun watch_root :: "'w env \<Rightarrow> (int \<times> path) list list \<Rightarrow> 'w state \<Rightarrow> exn option \<times> 'w state" where
  "watch_root env [] st = (None, st)"
| "watch_root env (changes # batches) st =
     (case watch_changes env changes st of
        (Some e, st') \<Rightarrow> (Some e, st')
      | (None, st') \<Rightarrow> watch_root env batches st')"

section \<open>manager.py: run\<close>

text \<open>
  The dict comprehension over the component files, in the order of the directory
  listing, and \<open>dict.update\<close> with its result.
\<close>

fun import_components ::
  "'w env \<Rightarrow> path list \<Rightarrow> (key \<times> pymodule) list \<Rightarrow> 'w globals
     \<Rightarrow> (exn + (key \<times> pymodule) list) \<times> 'w globals" where
  "import_components env [] d g = (Inr d, g)"
| "import_components env (c # cs) d g =
     (case import_file env c g of
        (Inl e, g') \<Rightarrow> (Inl e, g')
      | (Inr m, g') \<Rightarrow> import_components env cs (AList.update (ResolvedPath (resolve env c)) m d) g')"

definition dict_update :: "(key \<times> pymodule) list \<Rightarrow> (key \<times> pymodule) list \<Rightarrow> (key \<times> pymodule) list" where
  "dict_update d other = fold (\<lambda>kv. AList.update (fst kv) (snd kv)) other d"

text \<open>
  \<open>run\<close> from the imports to the construction of the \<open>SloDash\<close> object, the
  configuration file read: \<open>config_parent\<close> is \<open>config_path.parent\<close>, \<open>main\<close> is
  \<open>Path(config["main"])\<close>, \<open>preprocessor\<close> is the configured preprocessor path when
  there is one, \<open>listing\<close> is what \<open>component_base_path.iterdir()\<close> yields. The main
  module is stored under \<open>path.resolve\<close>, the method, and the component modules under
  \<open>component.resolve()\<close>.
\<close>

definition run ::
  "'w env \<Rightarrow> path \<Rightarrow> path \<Rightarrow> path option \<Rightarrow> path list \<Rightarrow> 'w globals \<Rightarrow> exn + 'w state" where
  "run env config_parent main preprocessor listing g =
     (case (case preprocessor of None \<Rightarrow> (Inr PyNone, g) | Some pp \<Rightarrow> import_file env pp g) of
        (Inl e, g1) \<Rightarrow> Inl e
      | (Inr pre, g1) \<Rightarrow>
          (case import_file env main g1 of
             (Inl e, g2) \<Rightarrow> Inl e
           | (Inr m, g2) \<Rightarrow>
               (let modules0 = [(ResolveMethod main, m)];
                    component_paths = filter (\<lambda>c. suffix c = ''.py'') listing
                in case import_components env component_paths [] g2 of
                     (Inl e, g3) \<Rightarrow> Inl e
                   | (Inr d, g3) \<Rightarrow>
                       Inr \<lparr>components = components g3, sys_modules = sys_modules g3,
                            meta_path = meta_path g3, world = world g3,
                            dash_path = config_parent, modules = dict_update modules0 d,
                            sent = []\<rparr>)))"

section \<open>A small project\<close>

text \<open>
  A project directory \<open>/proj\<close> with a main file, a second file \<open>home.py\<close> beside it, a
  components directory and a text file. In the environment, paths resolve to themselves,
  every \<open>.py\<close> file has a spec, a new module gets the number the world has reached, and
  every execution advances the world by one. \<open>widget.py\<close> registers \<open>/widget\<close> when
  first executed and \<open>/b\<close> and \<open>/c\<close> when its module (number 1) is reloaded; \<open>home.py\<close>
  registers \<open>/home\<close>, and \<open>/home2\<close> when its module (number 5) is reloaded;
  \<open>broken.py\<close> fails to execute, and its module (number 7) fails to reload;
  \<open>partial.py\<close> registers \<open>/p\<close> and then fails; \<open>attr.py\<close> raises AttributeError;
  \<open>missing.py\<close> does not exist.
\<close>

definition proj :: path where
  "proj = Path True [''proj'']"

definition app_py :: path where
  "app_py = Path True [''proj'', ''app.py'']"

definition home_py :: path where
  "home_py = Path True [''proj'', ''home.py'']"

definition notes_txt :: path where
  "notes_txt = Path True [''proj'', ''notes.txt'']"

definition widget_py :: path where
  "widget_py = Path True [''proj'', ''components'', ''widget.py'']"

definition ghost_py :: path where
  "ghost_py = Path True [''proj'', ''components'', ''ghost.py'']"

definition broken_py :: path where
  "broken_py = Path True [''proj'', ''components'', ''broken.py'']"

definition partial_py :: path where
  "partial_py = Path True [''proj'', ''components'', ''partial.py'']"

definition attr_py :: path where
  "attr_py = Path True [''proj'', ''components'', ''attr.py'']"

definition missing_py :: path where
  "missing_py = Path True [''proj'', ''components'', ''missing.py'']"

definition reg :: "string \<Rightarrow> nat \<Rightarrow> path \<Rightarrow> registration" where
  "reg u c p = \<lparr>uri = u, component = c, source_path = p\<rparr>"

definition demo_exec :: "string \<Rightarrow> path \<Rightarrow> nat \<Rightarrow> nat globals \<Rightarrow> exn option \<times> nat globals" where
  "demo_exec n p m g =
     (if p = missing_py then (Some (OtherError ''FileNotFoundError''), g)
      else if p = broken_py then (Some (OtherError ''SyntaxError''), g\<lparr>world := Suc (world g)\<rparr>)
      else if p = attr_py then (Some AttributeError, g\<lparr>world := Suc (world g)\<rparr>)
      else if p = partial_py
      then (Some (OtherError ''NameError''),
            g\<lparr>components := components g @ [reg ''/p'' m partial_py], world := Suc (world g)\<rparr>)
      else if p = widget_py
      then (None, g\<lparr>components := components g @ [reg ''/widget'' m widget_py], world := Suc (world g)\<rparr>)
      else if p = home_py
      then (None, g\<lparr>components := components g @ [reg ''/home'' m home_py], world := Suc (world g)\<rparr>)
      else (None, g\<lparr>world := Suc (world g)\<rparr>))"

definition demo_reload :: "nat \<Rightarrow> nat globals \<Rightarrow> (exn + nat) \<times> nat globals" where
  "demo_reload h g =
     (if h = 7 then (Inl (OtherError ''SyntaxError''), g\<lparr>world := Suc (world g)\<rparr>)
      else if h = 1
      then (Inr h, g\<lparr>components := components g @ [reg ''/b'' (world g) widget_py, reg ''/c'' (world g) widget_py],
                     world := Suc (world g)\<rparr>)
      else if h = 5
      then (Inr h, g\<lparr>components := components g @ [reg ''/home2'' (world g) home_py],
                     world := Suc (world g)\<rparr>)
      else (Inr h, g\<lparr>world := Suc (world g)\<rparr>))"

definition demo_env :: "nat env" where
  "demo_env =
     \<lparr>resolve = (\<lambda>p. p), spec_from_file_location = (\<lambda>n p. suffix p = ''.py''),
      module_from_spec = world, exec_module = demo_exec, reload_module = demo_reload\<rparr>"

definition demo_state :: "nat state" where
  "demo_state =
     \<lparr>components = [reg ''/a'' 1 widget_py, reg ''/b'' 1 widget_py, reg ''/x'' 7 broken_py],
      sys_modules = [(''app'', 0), (''widget'', 1), (''attr'', 3), (''home'', 5), (''broken'', 7)],
      meta_path = [[(''app'', app_py)], [(''widget'', widget_py)], [(''attr'', attr_py)],
                   [(''home'', home_py)], [(''broken'', broken_py)]],
      world = 8, dash_path = proj,
      modules = [(ResolveMethod app_py, Module 0), (ResolvedPath widget_py, Module 1),
                 (ResolvedPath broken_py, Module 7), (ResolvedPath attr_py, Module 3)],
      sent = []\<rparr>"

text \<open>
  A parser that answers as \<open>urlparse\<close> does on the strings used below: a path alone
  is the path, \<open>//host\<close> is a network location without a path, and \<open>//[\<close>, an
  unclosed bracket in the host, is refused with ValueError.
\<close>

definition demo_urlparse :: "string \<Rightarrow> exn + parse_result" where
  "demo_urlparse u =
     (if u = ''//['' then Inl ValueError
      else if take 2 u = ''//'' then Inr \<lparr>scheme = [], netloc = drop 2 u, path = []\<rparr>
      else Inr \<lparr>scheme = [], netloc = [], path = u\<rparr>)"

section \<open>The callbacks, computed\<close>

text \<open>
  The loop that removes from the live list while it walks the copy never misses an
  element, and amounts to a filter: what resolves to the changed path goes, in order,
  and its URIs are the routes.
\<close>

lemma modified_loop_filter:
  "filter (\<lambda>c. resolve env (source_path c) = resolve env p) live =
   filter (\<lambda>c. resolve env (source_path c) = resolve env p) copy \<Longrightarrow>
   modified_loop env p copy live routes =
     (Inr (routes @ map uri (filter (\<lambda>c. resolve env (source_path c) = resolve env p) copy)),
      filter (\<lambda>c. resolve env (source_path c) \<noteq> resolve env p) live)"
proof (induction copy arbitrary: live routes)
  case Nil
  then have "\<forall>c \<in> set live. resolve env (source_path c) \<noteq> resolve env p"
    by (simp add: filter_empty_conv)
  then show ?case by simp
next
  case (Cons c copy)
  show ?case
  proof (cases "resolve env (source_path c) = resolve env p")
    case True
    with Cons.prems
    have eq: "filter (\<lambda>c. resolve env (source_path c) = resolve env p) live =
              c # filter (\<lambda>c. resolve env (source_path c) = resolve env p) copy"
      by simp
    then have "c \<in> set (filter (\<lambda>c. resolve env (source_path c) = resolve env p) live)"
      by simp
    then have mem: "c \<in> set live" by simp
    have keep: "filter (\<lambda>c. resolve env (source_path c) = resolve env p) (remove1 c live) =
                filter (\<lambda>c. resolve env (source_path c) = resolve env p) copy"
      using eq by (simp add: filter_remove1)
    have rest: "filter (\<lambda>c. resolve env (source_path c) \<noteq> resolve env p) (remove1 c live) =
                filter (\<lambda>c. resolve env (source_path c) \<noteq> resolve env p) live"
      using True by (simp add: filter_remove1 remove1_idem)
    show ?thesis
      using True mem Cons.IH [OF keep] rest by (simp add: list_remove_def)
  next
    case False
    with Cons.prems
    have "filter (\<lambda>c. resolve env (source_path c) = resolve env p) live =
          filter (\<lambda>c. resolve env (source_path c) = resolve env p) copy"
      by simp
    from Cons.IH [OF this] False show ?thesis by simp
  qed
qed

lemma watch_component_modified_filter:
  "watch_component_modified env sp p comps =
     (if resolve env (joinpath sp ''components'') \<in> set (parents p)
      then (Inr (map uri (filter (\<lambda>c. resolve env (source_path c) = resolve env p) comps)),
            filter (\<lambda>c. resolve env (source_path c) \<noteq> resolve env p) comps)
      else (Inr [], comps))"
  by (simp add: watch_component_modified_def modified_loop_filter)

lemma run_callbacks_added:
  "run_callbacks env sp ''added'' watch_callbacks p [] comps = watch_component_added env sp p comps"
  by (simp add: watch_callbacks_def dict_get_def watch_component_added_def)

lemma run_callbacks_modified:
  "run_callbacks env sp ''modified'' watch_callbacks p [] comps =
     watch_component_modified env sp p comps"
  by (simp add: watch_callbacks_def dict_get_def watch_component_modified_filter)

lemma run_callbacks_deleted:
  "run_callbacks env sp ''deleted'' watch_callbacks p [] comps = (Inr [], comps)"
  by (simp add: watch_callbacks_def dict_get_def empty_list_callback_def)

section \<open>The branches of the watch loop, computed\<close>

lemma sent_set_globals [simp]: "sent (set_globals g st) = sent st"
  by (simp add: set_globals_def)

lemma modules_set_globals [simp]: "modules (set_globals g st) = modules st"
  by (simp add: set_globals_def)

lemma dash_path_set_globals [simp]: "dash_path (set_globals g st) = dash_path st"
  by (simp add: set_globals_def)

lemma components_set_globals [simp]: "components (set_globals g st) = components g"
  by (simp add: set_globals_def)

lemma components_globals_of [simp]: "components (globals_of st) = components st"
  by (simp add: globals_of_def)

lemma handle_change_sent: "sent (snd (handle_change env change st)) = sent st"
  by (simp add: handle_change_def Let_def run_callbacks_added run_callbacks_modified
      run_callbacks_deleted watch_component_added_def watch_component_modified_filter
      split: prod.splits sum.splits option.splits)

lemma handle_change_removed:
  "fst change \<noteq> 1 \<Longrightarrow> fst change \<noteq> 2 \<Longrightarrow>
   handle_change env change st =
     (case map_of (modules st) (ResolvedPath (resolve env (snd change))) of
        None \<Rightarrow> (Inl KeyError, st)
      | Some module \<Rightarrow>
          (Inr [], st\<lparr>modules := AList.delete (ResolvedPath (resolve env (snd change))) (modules st)\<rparr>))"
  by (simp add: handle_change_def Let_def run_callbacks_deleted split: option.splits)

lemma handle_change_modified:
  "handle_change env (2, p) st =
     (case watch_component_modified env (dash_path st) p (components st) of
        (Inl e, cs) \<Rightarrow> (Inl e, st\<lparr>components := cs\<rparr>)
      | (Inr routes, cs) \<Rightarrow>
          (case map_of (modules st) (ResolvedPath (resolve env p)) of
             None \<Rightarrow> (Inl KeyError, st\<lparr>components := cs\<rparr>)
           | Some module \<Rightarrow>
               (case reload env module ((globals_of st)\<lparr>components := cs\<rparr>) of
                  (Inl e, g) \<Rightarrow> (Inl e, set_globals g st)
                | (Inr module', g) \<Rightarrow>
                    (Inr routes,
                     (set_globals g st)\<lparr>modules :=
                        AList.update (ResolvedPath (resolve env p)) module' (modules st)\<rparr>))))"
  by (simp add: handle_change_def Let_def run_callbacks_modified)

lemma handle_change_added:
  "handle_change env (1, p) st =
     (case import_file env p (globals_of st) of
        (Inl e, g) \<Rightarrow> (Inl e, set_globals g st)
      | (Inr m, g) \<Rightarrow>
          (case watch_component_added env (dash_path st) p (components g) of
             (r, cs) \<Rightarrow>
               (r, (set_globals g st)\<lparr>modules := AList.update (ResolvedPath (resolve env p)) m (modules st),
                                        components := cs\<rparr>)))"
  by (simp add: handle_change_def Let_def run_callbacks_added split: prod.splits sum.splits)

lemma import_file_raises:
  "import_file env p g = (Inl e, g') \<Longrightarrow>
   exec_module env (stem p) (resolve env p) (module_from_spec env g)
     (g\<lparr>meta_path := meta_path g @ [[(stem p, resolve env p)]],
        sys_modules := AList.update (stem p) (module_from_spec env g) (sys_modules g)\<rparr>) = (Some e, g')"
  by (auto simp: import_file_def import_file_try_def Let_def
      split: if_splits prod.splits option.splits sum.splits)

lemma watch_changes_append:
  "watch_changes env (xs @ ys) st =
     (case watch_changes env xs st of
        (Some e, st') \<Rightarrow> (Some e, st')
      | (None, st') \<Rightarrow> watch_changes env ys st')"
  by (induction xs arbitrary: st) (auto split: prod.splits option.splits)

lemma watch_changes_raise:
  "watch_changes env pre st = (None, st1) \<Longrightarrow> watch_change env change st1 = (Some e, st2) \<Longrightarrow>
   watch_changes env (pre @ change # post) st = (Some e, st2)"
  by (simp add: watch_changes_append)

lemma watch_change_sent:
  "watch_change env change st = (None, st') \<Longrightarrow>
   sent st' = sent st @ (if suffix (snd change) = ''.py''
                         then [projr (fst (handle_change env change st))] else [])"
  using handle_change_sent [of env change st]
  by (auto simp: watch_change_def split: if_splits prod.splits sum.splits)

lemma watch_changes_sent_count:
  "watch_changes env changes st = (None, st') \<Longrightarrow>
   \<exists>calls. sent st' = sent st @ calls \<and>
           length calls = length (filter (\<lambda>c. suffix (snd c) = ''.py'') changes)"
proof (induction changes arbitrary: st)
  case Nil
  then show ?case by simp
next
  case (Cons c cs)
  from Cons.prems obtain st1 where
    one: "watch_change env c st = (None, st1)" and rest: "watch_changes env cs st1 = (None, st')"
    by (auto split: prod.splits option.splits)
  from Cons.IH [OF rest] obtain calls where
    calls: "sent st' = sent st1 @ calls"
      "length calls = length (filter (\<lambda>c. suffix (snd c) = ''.py'') cs)"
    by blast
  from watch_change_sent [OF one] calls show ?case by auto
qed

lemma watch_change_removed:
  "kind \<noteq> 1 \<Longrightarrow> kind \<noteq> 2 \<Longrightarrow>
   watch_change env (kind, p) st =
     (if suffix p = ''.py''
      then (case map_of (modules st) (ResolvedPath (resolve env p)) of
              None \<Rightarrow> (Some KeyError, st)
            | Some module \<Rightarrow>
                (None, st\<lparr>modules := AList.delete (ResolvedPath (resolve env p)) (modules st),
                          sent := sent st @ [[]]\<rparr>))
      else (None, st))"
  by (simp add: watch_change_def handle_change_removed split: option.splits)

lemma watch_change_ok:
  "watch_change env change st = (None, st') \<Longrightarrow> suffix (snd change) = ''.py'' \<Longrightarrow>
   \<exists>routes. fst (handle_change env change st) = Inr routes \<and> sent st' = sent st @ [routes]"
  using handle_change_sent [of env change st]
  by (auto simp: watch_change_def split: prod.splits sum.splits)

text \<open>The suffixes of the files of the small project.\<close>

lemma suffix_widget_py: "suffix widget_py = ''.py''"
  by (simp add: widget_py_def suffix_def name_def rfind_dot_def)

lemma suffix_broken_py: "suffix broken_py = ''.py''"
  by (simp add: broken_py_def suffix_def name_def rfind_dot_def)


section \<open>The claims\<close>

text \<open>
  C1, at a concrete input: the module of \<open>widget.py\<close> is loaded and the registry holds
  \<open>/a\<close> and \<open>/b\<close> for it. A Removed event for \<open>widget.py\<close> deletes the module record, but
  both registrations stay in the registry and the list sent is empty, where the claim
  expects no registration left and \<open>/a\<close>, \<open>/b\<close> sent. The loop asks the callback dict
  for the key \<open>deleted\<close>; the dict has \<open>removed\<close>, so the default callback runs.
\<close>

theorem removed_event_keeps_registrations:
  "watch_change demo_env (3, widget_py) demo_state =
     (None, demo_state\<lparr>modules := [(ResolveMethod app_py, Module 0), (ResolvedPath broken_py, Module 7),
                                   (ResolvedPath attr_py, Module 3)],
                      sent := [[]]\<rparr>) \<and>
   map uri (filter (\<lambda>c. source_path c = widget_py)
     (components (snd (watch_change demo_env (3, widget_py) demo_state)))) = [''/a'', ''/b''] \<and>
   dict_get (hd watch_callbacks) ''deleted'' Empty_list_callback = Empty_list_callback \<and>
   dict_get (hd watch_callbacks) ''removed'' Empty_list_callback = Watch_component_modified"
  by code_simp




text \<open>
  C3 fails as stated: the Modified event on \<open>broken.py\<close>, a path under the components
  directory, removes the registration \<open>/x\<close> of that path, and then the reload raises:
  no notification is sent for the event.
\<close>

theorem modified_without_notification_counterexample:
  "resolve demo_env (joinpath (dash_path demo_state) ''components'') \<in> set (parents broken_py) \<and>
   suffix broken_py = ''.py'' \<and>
   map uri (filter (\<lambda>c. source_path c = broken_py) (components demo_state)) = [''/x''] \<and>
   fst (watch_change demo_env (2, broken_py) demo_state) = Some (OtherError ''SyntaxError'') \<and>
   sent (snd (watch_change demo_env (2, broken_py) demo_state)) = sent demo_state \<and>
   filter (\<lambda>c. source_path c = broken_py)
     (components (snd (watch_change demo_env (2, broken_py) demo_state))) = []"
  by code_simp

text \<open>
  C3, amended: a Modified event on a path under the components directory first removes
  from the registry every registration whose source path resolves to the changed path,
  then reloads the module on the registry so reduced; when the path has a module record
  and the reload returns, the notification sent carries exactly the URIs of the
  registrations removed, in their order in the registry, whatever the reload registers.
  When the path has no module record or the reload raises, the loop ends before the
  notification; the removal has happened by then.
\<close>

theorem modified_notifies_stale_routes:
  assumes "resolve env (joinpath (dash_path st) ''components'') \<in> set (parents p)"
    and "suffix p = ''.py''"
  shows "watch_change env (2, p) st =
     (let stale = filter (\<lambda>c. resolve env (source_path c) = resolve env p) (components st);
          kept = filter (\<lambda>c. resolve env (source_path c) \<noteq> resolve env p) (components st);
          k = ResolvedPath (resolve env p)
      in case map_of (modules st) k of
           None \<Rightarrow> (Some KeyError, st\<lparr>components := kept\<rparr>)
         | Some module \<Rightarrow>
             (case reload env module ((globals_of st)\<lparr>components := kept\<rparr>) of
                (Inl e, g) \<Rightarrow> (Some e, set_globals g st)
              | (Inr module', g) \<Rightarrow>
                  (None, (set_globals g st)\<lparr>modules := AList.update k module' (modules st),
                                           sent := sent st @ [map uri stale]\<rparr>)))"
  using assms
  by (simp add: watch_change_def handle_change_modified watch_component_modified_filter Let_def
      split: option.splits prod.splits sum.splits)

text \<open>
  C3, the amended claim at \<open>widget.py\<close>: it had registered \<open>/a\<close> and \<open>/b\<close>, its
  reload registers \<open>/b\<close> and \<open>/c\<close>, and the list sent is \<open>/a\<close>, \<open>/b\<close>.
\<close>

theorem modified_notifies_stale_routes_witness:
  "resolve demo_env (joinpath (dash_path demo_state) ''components'') \<in> set (parents widget_py) \<and>
   suffix widget_py = ''.py'' \<and>
   map uri (components demo_state) = [''/a'', ''/b'', ''/x''] \<and>
   fst (watch_change demo_env (2, widget_py) demo_state) = None \<and>
   sent (snd (watch_change demo_env (2, widget_py) demo_state)) = [[''/a'', ''/b'']] \<and>
   map uri (components (snd (watch_change demo_env (2, widget_py) demo_state))) =
     [''/x'', ''/b'', ''/c'']"
proof -
  have inside: "resolve demo_env (joinpath (dash_path demo_state) ''components'') \<in> set (parents widget_py)"
    by code_simp
  let ?rhs = "(let stale = filter (\<lambda>c. resolve demo_env (source_path c) = resolve demo_env widget_py) (components demo_state);
          kept = filter (\<lambda>c. resolve demo_env (source_path c) \<noteq> resolve demo_env widget_py) (components demo_state);
          k = ResolvedPath (resolve demo_env widget_py)
      in case map_of (modules demo_state) k of
           None \<Rightarrow> (Some KeyError, demo_state\<lparr>components := kept\<rparr>)
         | Some module \<Rightarrow>
             (case reload demo_env module ((globals_of demo_state)\<lparr>components := kept\<rparr>) of
                (Inl e, g) \<Rightarrow> (Some e, set_globals g demo_state)
              | (Inr module', g) \<Rightarrow>
                  (None, (set_globals g demo_state)\<lparr>modules := AList.update k module' (modules demo_state),
                                           sent := sent demo_state @ [map uri stale]\<rparr>)))"
  have eq: "watch_change demo_env (2, widget_py) demo_state = ?rhs"
    by (rule modified_notifies_stale_routes [OF inside suffix_widget_py])
  have "map uri (components demo_state) = [''/a'', ''/b'', ''/x''] \<and>
        fst ?rhs = None \<and> sent (snd ?rhs) = [[''/a'', ''/b'']] \<and>
        map uri (components (snd ?rhs)) = [''/x'', ''/b'', ''/c'']"
    by code_simp
  with inside suffix_widget_py show ?thesis
    by (simp only: eq simp_thms)
qed

text \<open>
  C4 fails as stated: in a batch of two Removed events on \<open>.py\<close> paths, the first on
  a path without a module record, the sink is not called twice (it is not called at
  all).
\<close>

theorem missed_call_counterexample:
  "length (sent (snd (watch_changes demo_env [(3, ghost_py), (3, widget_py)] demo_state))) \<noteq>
   length (filter (\<lambda>c. suffix (snd c) = ''.py'') [(3::int, ghost_py), (3, widget_py)])"
  by code_simp

text \<open>
  C4, amended: when a batch is processed without an exception, the sink is called once
  for each of its events with the suffix \<open>.py\<close> and for no other, in the order of the
  events, and the call for an event carries the routes computed for that event in the
  state the loop had reached, the empty list included. An event that raises gets no call
  and ends the loop over the batch.
\<close>

theorem one_call_per_event_in_order:
  "(watch_changes env changes st = (None, st') \<longrightarrow>
      (\<exists>calls. sent st' = sent st @ calls \<and>
           length calls = length (filter (\<lambda>c. suffix (snd c) = ''.py'') changes) \<and>
           (\<forall>pre change post.
              changes = pre @ change # post \<and> suffix (snd change) = ''.py'' \<longrightarrow>
              fst (handle_change env change (snd (watch_changes env pre st))) =
                Inr (calls ! length (filter (\<lambda>c. suffix (snd c) = ''.py'') pre))))) \<and>
   (watch_changes env before st = (None, st1) \<and> suffix (snd failing) = ''.py'' \<and>
      handle_change env failing st1 = (Inl e, st2) \<longrightarrow>
      watch_changes env (before @ failing # after) st = (Some e, st2) \<and> sent st2 = sent st1)"
proof (intro conjI impI)
  assume ok: "watch_changes env changes st = (None, st')"
  from watch_changes_sent_count [OF ok] obtain calls where
    calls: "sent st' = sent st @ calls"
      "length calls = length (filter (\<lambda>c. suffix (snd c) = ''.py'') changes)"
    by blast
  have "fst (handle_change env change (snd (watch_changes env pre st))) =
          Inr (calls ! length (filter (\<lambda>c. suffix (snd c) = ''.py'') pre))"
    if split: "changes = pre @ change # post" and py: "suffix (snd change) = ''.py''"
    for pre change post
  proof -
    from ok split obtain st1 where
      pre: "watch_changes env pre st = (None, st1)" and
      rest: "watch_changes env (change # post) st1 = (None, st')"
      by (auto simp: watch_changes_append split: prod.splits option.splits)
    from rest obtain st2 where
      one: "watch_change env change st1 = (None, st2)" and
      post: "watch_changes env post st2 = (None, st')"
      by (auto split: prod.splits option.splits)
    from watch_changes_sent_count [OF pre] obtain c1 where
      c1: "sent st1 = sent st @ c1" "length c1 = length (filter (\<lambda>c. suffix (snd c) = ''.py'') pre)"
      by blast
    from watch_change_ok [OF one py] obtain routes where
      routes: "fst (handle_change env change st1) = Inr routes" "sent st2 = sent st1 @ [routes]"
      by blast
    from watch_changes_sent_count [OF post] obtain c3 where
      c3: "sent st' = sent st2 @ c3"
      by blast
    from calls(1) c1(1) routes(2) c3 have "calls = c1 @ routes # c3"
      by simp
    with c1(2) have "calls ! length (filter (\<lambda>c. suffix (snd c) = ''.py'') pre) = routes"
      by (metis nth_append_length)
    with routes(1) pre show ?thesis
      by simp
  qed
  with calls show "\<exists>calls. sent st' = sent st @ calls \<and>
           length calls = length (filter (\<lambda>c. suffix (snd c) = ''.py'') changes) \<and>
           (\<forall>pre change post.
              changes = pre @ change # post \<and> suffix (snd change) = ''.py'' \<longrightarrow>
              fst (handle_change env change (snd (watch_changes env pre st))) =
                Inr (calls ! length (filter (\<lambda>c. suffix (snd c) = ''.py'') pre)))"
    by blast
next
  assume raised: "watch_changes env before st = (None, st1) \<and> suffix (snd failing) = ''.py'' \<and>
      handle_change env failing st1 = (Inl e, st2)"
  then have "watch_change env failing st1 = (Some e, st2)"
    by (simp add: watch_change_def)
  with raised show "watch_changes env (before @ failing # after) st = (Some e, st2)"
    by (simp add: watch_changes_raise)
next
  assume raised: "watch_changes env before st = (None, st1) \<and> suffix (snd failing) = ''.py'' \<and>
      handle_change env failing st1 = (Inl e, st2)"
  with handle_change_sent [of env failing st1] show "sent st2 = sent st1"
    by simp
qed

text \<open>
  C4, the amended claim on a batch of a Modified event, an event on a text file and a
  Removed event: two calls, the second with the empty list; and on a batch whose second
  event raises KeyError: one call, made before it.
\<close>

theorem one_call_per_event_in_order_witness:
  "fst (watch_changes demo_env [(2, widget_py), (1, notes_txt), (3, broken_py)] demo_state) = None \<and>
   (\<exists>calls. sent (snd (watch_changes demo_env [(2, widget_py), (1, notes_txt), (3, broken_py)] demo_state))
              = sent demo_state @ calls \<and>
            length calls = 2 \<and> calls ! 0 = [''/a'', ''/b''] \<and> calls ! 1 = []) \<and>
   watch_changes demo_env [(3, attr_py)] demo_state =
     (None, snd (watch_changes demo_env [(3, attr_py)] demo_state)) \<and>
   suffix (snd (2::int, ghost_py)) = ''.py'' \<and>
   handle_change demo_env (2, ghost_py) (snd (watch_changes demo_env [(3, attr_py)] demo_state)) =
     (Inl KeyError, snd (watch_changes demo_env [(3, attr_py)] demo_state)) \<and>
   watch_changes demo_env [(3, attr_py), (2, ghost_py), (3, widget_py)] demo_state =
     (Some KeyError, snd (watch_changes demo_env [(3, attr_py)] demo_state)) \<and>
   sent (snd (watch_changes demo_env [(3, attr_py)] demo_state)) = [[]]"
proof -
  let ?batch = "[(2::int, widget_py), (1, notes_txt), (3, broken_py)]"
  let ?st' = "snd (watch_changes demo_env ?batch demo_state)"
  have ok: "watch_changes demo_env ?batch demo_state = (None, ?st')"
    by code_simp
  from one_call_per_event_in_order [THEN conjunct1, rule_format, OF ok] obtain calls where
    calls: "sent ?st' = sent demo_state @ calls"
      "length calls = length (filter (\<lambda>c. suffix (snd c) = ''.py'') ?batch)"
    and each: "\<And>pre change post. ?batch = pre @ change # post \<Longrightarrow> suffix (snd change) = ''.py'' \<Longrightarrow>
          fst (handle_change demo_env change (snd (watch_changes demo_env pre demo_state))) =
            Inr (calls ! length (filter (\<lambda>c. suffix (snd c) = ''.py'') pre))"
    by blast
  have n: "length (filter (\<lambda>c. suffix (snd c) = ''.py'') ?batch) = 2"
    by code_simp
  have "fst (handle_change demo_env (2, widget_py) (snd (watch_changes demo_env [] demo_state))) =
          Inr (calls ! length (filter (\<lambda>c. suffix (snd c) = ''.py'') ([] :: (int \<times> path) list)))"
    by (rule each [of "[]" "(2, widget_py)" "[(1, notes_txt), (3, broken_py)]"])
       (simp_all add: suffix_widget_py)
  moreover have "fst (handle_change demo_env (2, widget_py) (snd (watch_changes demo_env [] demo_state))) =
          Inr [''/a'', ''/b'']"
    by code_simp
  ultimately have first: "calls ! 0 = [''/a'', ''/b'']"
    by simp
  have "fst (handle_change demo_env (3, broken_py)
               (snd (watch_changes demo_env [(2, widget_py), (1, notes_txt)] demo_state))) =
          Inr (calls ! length (filter (\<lambda>c. suffix (snd c) = ''.py'') [(2::int, widget_py), (1, notes_txt)]))"
    by (rule each [of "[(2, widget_py), (1, notes_txt)]" "(3, broken_py)" "[]"])
       (simp_all add: suffix_broken_py)
  moreover have "fst (handle_change demo_env (3, broken_py)
               (snd (watch_changes demo_env [(2, widget_py), (1, notes_txt)] demo_state))) = Inr []"
    by code_simp
  moreover have "length (filter (\<lambda>c. suffix (snd c) = ''.py'') [(2::int, widget_py), (1, notes_txt)]) = 1"
    by code_simp
  ultimately have second: "calls ! 1 = []"
    by simp
  have none: "fst (watch_changes demo_env ?batch demo_state) = None"
    by code_simp
  from calls(2) n have len: "length calls = 2"
    by (rule trans)
  from calls(1) len first second
  have "\<exists>calls. sent ?st' = sent demo_state @ calls \<and>
            length calls = 2 \<and> calls ! 0 = [''/a'', ''/b''] \<and> calls ! 1 = []"
    by blast
  with none have first_part: "fst (watch_changes demo_env ?batch demo_state) = None \<and>
   (\<exists>calls. sent ?st' = sent demo_state @ calls \<and>
            length calls = 2 \<and> calls ! 0 = [''/a'', ''/b''] \<and> calls ! 1 = [])"
    by (rule conjI)
  let ?st1 = "snd (watch_changes demo_env [(3, attr_py)] demo_state)"
  have raised: "watch_changes demo_env [(3, attr_py)] demo_state = (None, ?st1) \<and>
      suffix (snd (2::int, ghost_py)) = ''.py'' \<and>
      handle_change demo_env (2, ghost_py) ?st1 = (Inl KeyError, ?st1)"
    by code_simp
  have before: "sent ?st1 = [[]]"
    by code_simp
  from one_call_per_event_in_order [THEN conjunct2, rule_format, OF raised, of "[(3, widget_py)]"]
  have "watch_changes demo_env [(3, attr_py), (2, ghost_py), (3, widget_py)] demo_state =
     (Some KeyError, ?st1)"
    by simp
  with first_part raised before show ?thesis
    by blast
qed

text \<open>
  C5 fails as stated. The Added file \<open>partial.py\<close> registers \<open>/p\<close> and then raises:
  its new module stays bound in \<open>sys.modules\<close> under the stem \<open>partial\<close>, the
  registration \<open>/p\<close> stays in the registry, and nothing is sent. The reload of
  \<open>broken.py\<close> raises: nothing is sent and the registration \<open>/x\<close> of the path has been
  removed. And when the load of \<open>attr.py\<close> raises an exception that \<open>import_file\<close>
  catches, the module record of the path is replaced by \<open>None\<close>.
\<close>

theorem failed_load_counterexample:
  "fst (watch_change demo_env (1, partial_py) demo_state) = Some (OtherError ''NameError'') \<and>
   map_of (sys_modules demo_state) (stem partial_py) = None \<and>
   map_of (sys_modules (snd (watch_change demo_env (1, partial_py) demo_state))) (stem partial_py)
     = Some 8 \<and>
   map uri (components (snd (watch_change demo_env (1, partial_py) demo_state))) =
     map uri (components demo_state) @ [''/p''] \<and>
   sent (snd (watch_change demo_env (1, partial_py) demo_state)) = sent demo_state \<and>
   fst (watch_change demo_env (2, broken_py) demo_state) = Some (OtherError ''SyntaxError'') \<and>
   sent (snd (watch_change demo_env (2, broken_py) demo_state)) = sent demo_state \<and>
   map uri (components (snd (watch_change demo_env (2, broken_py) demo_state))) = [''/a'', ''/b''] \<and>
   map_of (modules demo_state) (ResolvedPath attr_py) = Some (Module 3) \<and>
   map_of (modules (snd (watch_change demo_env (1, attr_py) demo_state))) (ResolvedPath attr_py)
     = Some PyNone"
  by code_simp

text \<open>
  C5, amended. When the load of an Added file raises an exception that \<open>import_file\<close>
  does not catch, or the reload of a Modified file raises, the module records are left
  as they were, but nothing is sent for the event and the exception leaves the loop, and
  the state the failed execution reached stays: a failed load was executed with its
  finder on \<open>sys.meta_path\<close> and its new module bound in \<open>sys.modules\<close> under the stem of
  the file, a failed reload after the removal of the path's registrations. When
  \<open>import_file\<close> catches the exception of the load and returns \<open>None\<close>, \<open>None\<close> is stored
  for the path in place of the previous module and the routes of the added callback are
  sent. (Which exceptions \<open>import_file\<close> catches is not part of the statement.)
\<close>

theorem failed_load_or_reload:
  "(suffix p = ''.py'' \<and> import_file env p (globals_of st) = (Inl e, g) \<longrightarrow>
      watch_change env (1, p) st = (Some e, set_globals g st) \<and>
      exec_module env (stem p) (resolve env p) (module_from_spec env (globals_of st))
        ((globals_of st)\<lparr>meta_path := meta_path st @ [[(stem p, resolve env p)]],
           sys_modules := AList.update (stem p) (module_from_spec env (globals_of st)) (sys_modules st)\<rparr>)
        = (Some e, g)) \<and>
   (suffix p = ''.py'' \<and> map_of (modules st) (ResolvedPath (resolve env p)) = Some module \<and>
      reload env module
        ((globals_of st)\<lparr>components :=
           if resolve env (joinpath (dash_path st) ''components'') \<in> set (parents p)
           then filter (\<lambda>c. resolve env (source_path c) \<noteq> resolve env p) (components st)
           else components st\<rparr>) = (Inl e, g) \<longrightarrow>
      watch_change env (2, p) st = (Some e, set_globals g st)) \<and>
   (suffix p = ''.py'' \<and> import_file env p (globals_of st) = (Inr PyNone, g) \<longrightarrow>
      watch_change env (1, p) st =
        (None, (set_globals g st)\<lparr>modules := AList.update (ResolvedPath (resolve env p)) PyNone (modules st),
                  sent := sent st @
                    [if resolve env (joinpath (dash_path st) ''components'') \<in> set (parents p)
                     then map uri (filter (\<lambda>c. source_path c = p) (components g)) else []]\<rparr>))"
proof (intro conjI impI)
  assume h: "suffix p = ''.py'' \<and> import_file env p (globals_of st) = (Inl e, g)"
  then show "watch_change env (1, p) st = (Some e, set_globals g st)"
    by (simp add: watch_change_def handle_change_added)
  from h have "import_file env p (globals_of st) = (Inl e, g)"
    by simp
  from import_file_raises [OF this]
  show "exec_module env (stem p) (resolve env p) (module_from_spec env (globals_of st))
        ((globals_of st)\<lparr>meta_path := meta_path st @ [[(stem p, resolve env p)]],
           sys_modules := AList.update (stem p) (module_from_spec env (globals_of st)) (sys_modules st)\<rparr>)
        = (Some e, g)"
    by (simp add: globals_of_def)
next
  assume "suffix p = ''.py'' \<and> map_of (modules st) (ResolvedPath (resolve env p)) = Some module \<and>
      reload env module
        ((globals_of st)\<lparr>components :=
           if resolve env (joinpath (dash_path st) ''components'') \<in> set (parents p)
           then filter (\<lambda>c. resolve env (source_path c) \<noteq> resolve env p) (components st)
           else components st\<rparr>) = (Inl e, g)"
  then show "watch_change env (2, p) st = (Some e, set_globals g st)"
    by (simp add: watch_change_def handle_change_modified watch_component_modified_filter
        split: if_splits)
next
  assume "suffix p = ''.py'' \<and> import_file env p (globals_of st) = (Inr PyNone, g)"
  then show "watch_change env (1, p) st =
        (None, (set_globals g st)\<lparr>modules := AList.update (ResolvedPath (resolve env p)) PyNone (modules st),
                  sent := sent st @
                    [if resolve env (joinpath (dash_path st) ''components'') \<in> set (parents p)
                     then map uri (filter (\<lambda>c. source_path c = p) (components g)) else []]\<rparr>)"
    by (simp add: watch_change_def handle_change_added watch_component_added_def set_globals_def)
qed

text \<open>
  C5, the amended claim at \<open>partial.py\<close> (Added), \<open>broken.py\<close> (Modified) and
  \<open>attr.py\<close> (Added).
\<close>

theorem failed_load_or_reload_witness:
  "(suffix partial_py = ''.py'' \<and>
    import_file demo_env partial_py (globals_of demo_state) =
      (Inl (OtherError ''NameError''), snd (import_file demo_env partial_py (globals_of demo_state))) \<and>
    watch_change demo_env (1, partial_py) demo_state =
      (Some (OtherError ''NameError''),
       set_globals (snd (import_file demo_env partial_py (globals_of demo_state))) demo_state) \<and>
    map_of (sys_modules (snd (import_file demo_env partial_py (globals_of demo_state)))) ''partial''
      = Some 8 \<and>
    map uri (components (snd (import_file demo_env partial_py (globals_of demo_state)))) =
      [''/a'', ''/b'', ''/x'', ''/p'']) \<and>
   (map_of (modules demo_state) (ResolvedPath (resolve demo_env broken_py)) = Some (Module 7) \<and>
    watch_change demo_env (2, broken_py) demo_state =
      (Some (OtherError ''SyntaxError''),
       demo_state\<lparr>components := [reg ''/a'' 1 widget_py, reg ''/b'' 1 widget_py], world := 9\<rparr>)) \<and>
   (suffix attr_py = ''.py'' \<and>
    import_file demo_env attr_py (globals_of demo_state) =
      (Inr PyNone, snd (import_file demo_env attr_py (globals_of demo_state))) \<and>
    fst (watch_change demo_env (1, attr_py) demo_state) = None \<and>
    modules (snd (watch_change demo_env (1, attr_py) demo_state)) =
      [(ResolveMethod app_py, Module 0), (ResolvedPath widget_py, Module 1),
       (ResolvedPath broken_py, Module 7), (ResolvedPath attr_py, PyNone)] \<and>
    sent (snd (watch_change demo_env (1, attr_py) demo_state)) = [[]])"
proof -
  let ?g1 = "snd (import_file demo_env partial_py (globals_of demo_state))"
  have load: "suffix partial_py = ''.py'' \<and>
      import_file demo_env partial_py (globals_of demo_state) = (Inl (OtherError ''NameError''), ?g1)"
    by code_simp
  from failed_load_or_reload [THEN conjunct1, rule_format, OF load]
  have first: "watch_change demo_env (1, partial_py) demo_state =
      (Some (OtherError ''NameError''), set_globals ?g1 demo_state)"
    by (rule conjunct1)
  have left: "map_of (sys_modules ?g1) ''partial'' = Some 8 \<and>
      map uri (components ?g1) = [''/a'', ''/b'', ''/x'', ''/p'']"
    by code_simp
  let ?g2 = "snd (reload demo_env (Module 7)
        ((globals_of demo_state)\<lparr>components :=
           if resolve demo_env (joinpath (dash_path demo_state) ''components'') \<in> set (parents broken_py)
           then filter (\<lambda>c. resolve demo_env (source_path c) \<noteq> resolve demo_env broken_py)
                  (components demo_state)
           else components demo_state\<rparr>))"
  have again: "suffix broken_py = ''.py'' \<and>
      map_of (modules demo_state) (ResolvedPath (resolve demo_env broken_py)) = Some (Module 7) \<and>
      reload demo_env (Module 7)
        ((globals_of demo_state)\<lparr>components :=
           if resolve demo_env (joinpath (dash_path demo_state) ''components'') \<in> set (parents broken_py)
           then filter (\<lambda>c. resolve demo_env (source_path c) \<noteq> resolve demo_env broken_py)
                  (components demo_state)
           else components demo_state\<rparr>) = (Inl (OtherError ''SyntaxError''), ?g2)"
    by code_simp
  have "watch_change demo_env (2, broken_py) demo_state =
      (Some (OtherError ''SyntaxError''), set_globals ?g2 demo_state)"
    by (rule failed_load_or_reload [THEN conjunct2, THEN conjunct1, rule_format, OF again])
  also have "\<dots> = (Some (OtherError ''SyntaxError''),
       demo_state\<lparr>components := [reg ''/a'' 1 widget_py, reg ''/b'' 1 widget_py], world := 9\<rparr>)"
    by code_simp
  finally have second: "watch_change demo_env (2, broken_py) demo_state =
      (Some (OtherError ''SyntaxError''),
       demo_state\<lparr>components := [reg ''/a'' 1 widget_py, reg ''/b'' 1 widget_py], world := 9\<rparr>)" .
  let ?g3 = "snd (import_file demo_env attr_py (globals_of demo_state))"
  let ?st3 = "(set_globals ?g3 demo_state)\<lparr>modules :=
                AList.update (ResolvedPath (resolve demo_env attr_py)) PyNone (modules demo_state),
              sent := sent demo_state @
                [if resolve demo_env (joinpath (dash_path demo_state) ''components'') \<in> set (parents attr_py)
                 then map uri (filter (\<lambda>c. source_path c = attr_py) (components ?g3)) else []]\<rparr>"
  have caught: "suffix attr_py = ''.py'' \<and>
      import_file demo_env attr_py (globals_of demo_state) = (Inr PyNone, ?g3)"
    by code_simp
  have third: "watch_change demo_env (1, attr_py) demo_state = (None, ?st3)"
    by (rule failed_load_or_reload [THEN conjunct2, THEN conjunct2, rule_format, OF caught])
  have "fst (None :: exn option, ?st3) = None \<and>
      modules (snd (None :: exn option, ?st3)) =
        [(ResolveMethod app_py, Module 0), (ResolvedPath widget_py, Module 1),
         (ResolvedPath broken_py, Module 7), (ResolvedPath attr_py, PyNone)] \<and>
      sent (snd (None :: exn option, ?st3)) = [[]]"
    by code_simp
  then have third': "fst (watch_change demo_env (1, attr_py) demo_state) = None \<and>
      modules (snd (watch_change demo_env (1, attr_py) demo_state)) =
        [(ResolveMethod app_py, Module 0), (ResolvedPath widget_py, Module 1),
         (ResolvedPath broken_py, Module 7), (ResolvedPath attr_py, PyNone)] \<and>
      sent (snd (watch_change demo_env (1, attr_py) demo_state)) = [[]]"
    by (simp only: third)
  from load first left again second caught third' show ?thesis
    by blast
qed




text \<open>
  C7, at a concrete input: \<open>run\<close> stores the main module under the method
  \<open>path.resolve\<close>, not under the resolved path. A lookup of the resolved path of the main
  file finds nothing, a Modified event on it raises KeyError, and after an Added event
  on it the dict holds two modules for the one file.
\<close>

theorem run_keys_main_module_by_method:
  "run demo_env proj app_py None [widget_py, notes_txt]
     \<lparr>components = [], sys_modules = [], meta_path = [], world = 0\<rparr> =
     Inr \<lparr>components = [reg ''/widget'' 1 widget_py],
          sys_modules = [(''app'', 0), (''widget'', 1)],
          meta_path = [[(''app'', app_py)], [(''widget'', widget_py)]],
          world = 2, dash_path = proj,
          modules = [(ResolveMethod app_py, Module 0), (ResolvedPath widget_py, Module 1)],
          sent = []\<rparr> \<and>
   map_of [(ResolveMethod app_py, Module 0), (ResolvedPath widget_py, Module 1)]
     (ResolvedPath (resolve demo_env app_py)) = None \<and>
   fst (watch_change demo_env (2, app_py)
     \<lparr>components = [reg ''/widget'' 1 widget_py],
      sys_modules = [(''app'', 0), (''widget'', 1)],
      meta_path = [[(''app'', app_py)], [(''widget'', widget_py)]],
      world = 2, dash_path = proj,
      modules = [(ResolveMethod app_py, Module 0), (ResolvedPath widget_py, Module 1)],
      sent = []\<rparr>) = Some KeyError \<and>
   modules (snd (watch_change demo_env (1, app_py)
     \<lparr>components = [reg ''/widget'' 1 widget_py],
      sys_modules = [(''app'', 0), (''widget'', 1)],
      meta_path = [[(''app'', app_py)], [(''widget'', widget_py)]],
      world = 2, dash_path = proj,
      modules = [(ResolveMethod app_py, Module 0), (ResolvedPath widget_py, Module 1)],
      sent = []\<rparr>)) =
     [(ResolveMethod app_py, Module 0), (ResolvedPath widget_py, Module 1),
      (ResolvedPath app_py, Module 2)]"
  by code_simp

text \<open>
  C8 fails as stated: \<open>home.py\<close> lies outside the components directory and registers
  \<open>/home\<close> when it is executed, so an Added event on it adds an entry to the registry.
\<close>

theorem outside_load_registers_counterexample:
  "resolve demo_env (joinpath (dash_path demo_state) ''components'') \<notin> set (parents home_py) \<and>
   suffix home_py = ''.py'' \<and>
   fst (watch_change demo_env (1, home_py) demo_state) = None \<and>
   map uri (components demo_state) = [''/a'', ''/b'', ''/x''] \<and>
   map uri (components (snd (watch_change demo_env (1, home_py) demo_state))) =
     [''/a'', ''/b'', ''/x'', ''/home'']"
  by code_simp

text \<open>
  C8, amended: for a path outside the components directory, the added and the modified
  callbacks return the empty list and leave the registry as it is, and the loop itself
  neither adds nor removes an entry: the registry after an Added or a Modified event is
  the one the execution of the module (its load, its reload) leaves, and that execution
  may register components.
\<close>

theorem outside_components_registry_untouched:
  assumes "resolve env (joinpath (dash_path st) ''components'') \<notin> set (parents p)"
  shows "run_callbacks env (dash_path st) ''added'' watch_callbacks p [] cs = (Inr [], cs) \<and>
         run_callbacks env (dash_path st) ''modified'' watch_callbacks p [] cs = (Inr [], cs) \<and>
         components (snd (handle_change env (1, p) st)) =
           components (snd (import_file env p (globals_of st))) \<and>
         components (snd (handle_change env (2, p) st)) =
           (case map_of (modules st) (ResolvedPath (resolve env p)) of
              None \<Rightarrow> components st
            | Some module \<Rightarrow> components (snd (reload env module (globals_of st))))"
proof -
  have same: "(globals_of st)\<lparr>components := components st\<rparr> = globals_of st"
    by (simp add: globals_of_def)
  from assms show ?thesis
    by (simp add: run_callbacks_added run_callbacks_modified handle_change_added
        handle_change_modified watch_component_added_def watch_component_modified_filter same
        split: prod.splits sum.splits option.splits)
qed

text \<open>
  C8, the amended claim at \<open>home.py\<close>, with a module record for it: the load
  registers \<open>/home\<close>, the reload \<open>/home2\<close>, and nothing else changes in the registry.
\<close>

theorem outside_components_registry_untouched_witness:
  "resolve demo_env
     (joinpath (dash_path (demo_state\<lparr>modules := (ResolvedPath home_py, Module 5) # modules demo_state\<rparr>))
        ''components'') \<notin> set (parents home_py) \<and>
   run_callbacks demo_env
     (dash_path (demo_state\<lparr>modules := (ResolvedPath home_py, Module 5) # modules demo_state\<rparr>))
     ''added'' watch_callbacks home_py [] (components demo_state) = (Inr [], components demo_state) \<and>
   run_callbacks demo_env
     (dash_path (demo_state\<lparr>modules := (ResolvedPath home_py, Module 5) # modules demo_state\<rparr>))
     ''modified'' watch_callbacks home_py [] (components demo_state) = (Inr [], components demo_state) \<and>
   map uri (components (snd (handle_change demo_env (1, home_py)
     (demo_state\<lparr>modules := (ResolvedPath home_py, Module 5) # modules demo_state\<rparr>)))) =
     [''/a'', ''/b'', ''/x'', ''/home''] \<and>
   map uri (components (snd (handle_change demo_env (2, home_py)
     (demo_state\<lparr>modules := (ResolvedPath home_py, Module 5) # modules demo_state\<rparr>)))) =
     [''/a'', ''/b'', ''/x'', ''/home2'']"
proof -
  let ?st = "demo_state\<lparr>modules := (ResolvedPath home_py, Module 5) # modules demo_state\<rparr>"
  have outside: "resolve demo_env (joinpath (dash_path ?st) ''components'') \<notin> set (parents home_py)"
    by code_simp
  have load: "map uri (components (snd (import_file demo_env home_py (globals_of ?st)))) =
      [''/a'', ''/b'', ''/x'', ''/home'']"
    by code_simp
  have known: "map uri (case map_of (modules ?st) (ResolvedPath (resolve demo_env home_py)) of
              None \<Rightarrow> components ?st
            | Some module \<Rightarrow> components (snd (reload demo_env module (globals_of ?st))))
          = [''/a'', ''/b'', ''/x'', ''/home2'']"
    by code_simp
  note frame = outside_components_registry_untouched [OF outside, of "components demo_state"]
  from frame have added: "run_callbacks demo_env (dash_path ?st) ''added'' watch_callbacks home_py []
       (components demo_state) = (Inr [], components demo_state)"
    by (rule conjunct1)
  from frame have modified: "run_callbacks demo_env (dash_path ?st) ''modified'' watch_callbacks home_py []
       (components demo_state) = (Inr [], components demo_state)"
    by (rule conjunct2 [THEN conjunct1])
  from frame have "components (snd (handle_change demo_env (1, home_py) ?st)) =
           components (snd (import_file demo_env home_py (globals_of ?st)))"
    by (rule conjunct2 [THEN conjunct2, THEN conjunct1])
  with load have l: "map uri (components (snd (handle_change demo_env (1, home_py) ?st))) =
      [''/a'', ''/b'', ''/x'', ''/home'']"
    by (simp only:)
  from frame have "components (snd (handle_change demo_env (2, home_py) ?st)) =
           (case map_of (modules ?st) (ResolvedPath (resolve demo_env home_py)) of
              None \<Rightarrow> components ?st
            | Some module \<Rightarrow> components (snd (reload demo_env module (globals_of ?st))))"
    by (rule conjunct2 [THEN conjunct2, THEN conjunct2])
  with known have r: "map uri (components (snd (handle_change demo_env (2, home_py) ?st))) =
      [''/a'', ''/b'', ''/x'', ''/home2'']"
    by (simp only:)
  from outside added modified l r show ?thesis
    by blast
qed

text \<open>
  C9 fails as stated: the Added file \<open>broken.py\<close> fails to execute, the exception
  leaves the loop, and the Removed event after it, which alone would be processed and
  notified, is not.
\<close>

theorem failing_event_counterexample:
  "fst (watch_changes demo_env [(1, broken_py), (3, widget_py)] demo_state) =
     Some (OtherError ''SyntaxError'') \<and>
   sent (snd (watch_changes demo_env [(1, broken_py), (3, widget_py)] demo_state)) = [] \<and>
   map_of (modules (snd (watch_changes demo_env [(1, broken_py), (3, widget_py)] demo_state)))
     (ResolvedPath widget_py) = Some (Module 1) \<and>
   fst (watch_changes demo_env [(3, widget_py)] demo_state) = None \<and>
   sent (snd (watch_changes demo_env [(3, widget_py)] demo_state)) = [[]]"
  by code_simp

text \<open>
  C9, amended: a failure is contained only where \<open>import_file\<close> catches the exception
  of a load: it returns \<open>None\<close>, the event is notified and the loop goes on. Every other
  failure, which is an exception of a load that \<open>import_file\<close> does not catch, the
  KeyError of a Modified or Removed path without a module record, or an exception of a
  reload, leaves the loop over the batch and the loop over the batches: the events before
  it have been processed, nothing is sent for the failing event, the module records stay
  as they were, and the later events and batches are not processed.
\<close>

theorem failure_ends_the_watch_loop:
  "(watch_changes env pre st = (None, st1) \<and> suffix p = ''.py'' \<and>
      ((kind = 1 \<and> fst (import_file env p (globals_of st1)) = Inl e) \<or>
       (kind \<noteq> 1 \<and> map_of (modules st1) (ResolvedPath (resolve env p)) = None \<and> e = KeyError) \<or>
       (kind = 2 \<and> map_of (modules st1) (ResolvedPath (resolve env p)) = Some module \<and>
          fst (reload env module
            ((globals_of st1)\<lparr>components :=
               if resolve env (joinpath (dash_path st1) ''components'') \<in> set (parents p)
               then filter (\<lambda>c. resolve env (source_path c) \<noteq> resolve env p) (components st1)
               else components st1\<rparr>)) = Inl e)) \<longrightarrow>
      (\<exists>st2. watch_root env ((pre @ (kind, p) # post) # batches) st = (Some e, st2) \<and>
             sent st2 = sent st1 \<and> modules st2 = modules st1)) \<and>
   (watch_changes env pre st = (None, st1) \<and> suffix p = ''.py'' \<and>
      fst (import_file env p (globals_of st1)) = Inr PyNone \<longrightarrow>
      (\<exists>st2. watch_change env (1, p) st1 = (None, st2) \<and>
             length (sent st2) = Suc (length (sent st1)) \<and>
             watch_changes env (pre @ (1, p) # post) st = watch_changes env post st2))"
proof (intro conjI impI)
  assume h: "watch_changes env pre st = (None, st1) \<and> suffix p = ''.py'' \<and>
      ((kind = 1 \<and> fst (import_file env p (globals_of st1)) = Inl e) \<or>
       (kind \<noteq> 1 \<and> map_of (modules st1) (ResolvedPath (resolve env p)) = None \<and> e = KeyError) \<or>
       (kind = 2 \<and> map_of (modules st1) (ResolvedPath (resolve env p)) = Some module \<and>
          fst (reload env module
            ((globals_of st1)\<lparr>components :=
               if resolve env (joinpath (dash_path st1) ''components'') \<in> set (parents p)
               then filter (\<lambda>c. resolve env (source_path c) \<noteq> resolve env p) (components st1)
               else components st1\<rparr>)) = Inl e))"
  then have pre: "watch_changes env pre st = (None, st1)" and py: "suffix p = ''.py''"
    by simp_all
  have "\<exists>st2. watch_change env (kind, p) st1 = (Some e, st2) \<and> sent st2 = sent st1 \<and>
          modules st2 = modules st1"
  proof -
    from h have causes: "(kind = 1 \<and> fst (import_file env p (globals_of st1)) = Inl e) \<or>
       (kind \<noteq> 1 \<and> map_of (modules st1) (ResolvedPath (resolve env p)) = None \<and> e = KeyError) \<or>
       (kind = 2 \<and> map_of (modules st1) (ResolvedPath (resolve env p)) = Some module \<and>
          fst (reload env module
            ((globals_of st1)\<lparr>components :=
               if resolve env (joinpath (dash_path st1) ''components'') \<in> set (parents p)
               then filter (\<lambda>c. resolve env (source_path c) \<noteq> resolve env p) (components st1)
               else components st1\<rparr>)) = Inl e)"
      by (elim conjE)
    then consider (load) "kind = 1" "fst (import_file env p (globals_of st1)) = Inl e"
      | (unknown) "kind \<noteq> 1" "map_of (modules st1) (ResolvedPath (resolve env p)) = None" "e = KeyError"
      | (reload) "kind = 2" "map_of (modules st1) (ResolvedPath (resolve env p)) = Some module"
          "fst (reload env module
            ((globals_of st1)\<lparr>components :=
               if resolve env (joinpath (dash_path st1) ''components'') \<in> set (parents p)
               then filter (\<lambda>c. resolve env (source_path c) \<noteq> resolve env p) (components st1)
               else components st1\<rparr>)) = Inl e"
      by (elim disjE conjE)
    then show ?thesis
    proof cases
      case load
      with py show ?thesis
        by (cases "import_file env p (globals_of st1)")
           (simp add: watch_change_def handle_change_added)
    next
      case unknown
      show ?thesis
      proof (cases "kind = 2")
        case True
        with unknown py show ?thesis
          by (simp add: watch_change_def handle_change_modified watch_component_modified_filter)
      next
        case False
        with unknown py show ?thesis
          by (simp add: watch_change_removed)
      qed
    next
      case reload
      with py show ?thesis
        by (cases "reload env module
            ((globals_of st1)\<lparr>components :=
               if resolve env (joinpath (dash_path st1) ''components'') \<in> set (parents p)
               then filter (\<lambda>c. resolve env (source_path c) \<noteq> resolve env p) (components st1)
               else components st1\<rparr>)")
           (simp add: watch_change_def handle_change_modified watch_component_modified_filter
              split: if_splits)
    qed
  qed
  then obtain st2 where "watch_change env (kind, p) st1 = (Some e, st2)" "sent st2 = sent st1"
    "modules st2 = modules st1"
    by blast
  with pre show "\<exists>st2. watch_root env ((pre @ (kind, p) # post) # batches) st = (Some e, st2) \<and>
             sent st2 = sent st1 \<and> modules st2 = modules st1"
    by (simp add: watch_changes_raise)
next
  assume h: "watch_changes env pre st = (None, st1) \<and> suffix p = ''.py'' \<and>
      fst (import_file env p (globals_of st1)) = Inr PyNone"
  then have "\<exists>st2. watch_change env (1, p) st1 = (None, st2) \<and>
      length (sent st2) = Suc (length (sent st1))"
    by (cases "import_file env p (globals_of st1)")
       (simp add: watch_change_def handle_change_added watch_component_added_def)
  then obtain st2 where one: "watch_change env (1, p) st1 = (None, st2)"
    and len: "length (sent st2) = Suc (length (sent st1))"
    by blast
  from h one have "watch_changes env (pre @ (1, p) # post) st = watch_changes env post st2"
    by (simp add: watch_changes_append)
  with one len show "\<exists>st2. watch_change env (1, p) st1 = (None, st2) \<and>
             length (sent st2) = Suc (length (sent st1)) \<and>
             watch_changes env (pre @ (1, p) # post) st = watch_changes env post st2"
    by blast
qed

text \<open>
  C9, the amended claim at an Added event on the missing file \<open>missing.py\<close>, after
  which nothing is processed, and at an Added event on \<open>attr.py\<close>, whose exception
  \<open>import_file\<close> catches.
\<close>

theorem failure_ends_the_watch_loop_witness:
  "watch_changes demo_env [(3, widget_py)] demo_state =
     (None, snd (watch_changes demo_env [(3, widget_py)] demo_state)) \<and>
   suffix missing_py = ''.py'' \<and>
   fst (import_file demo_env missing_py
          (globals_of (snd (watch_changes demo_env [(3, widget_py)] demo_state)))) =
     Inl (OtherError ''FileNotFoundError'') \<and>
   fst (watch_root demo_env [[(3, widget_py), (1, missing_py), (3, attr_py)], [(3, broken_py)]]
          demo_state) = Some (OtherError ''FileNotFoundError'') \<and>
   sent (snd (watch_root demo_env [[(3, widget_py), (1, missing_py), (3, attr_py)], [(3, broken_py)]]
          demo_state)) = [[]] \<and>
   modules (snd (watch_root demo_env [[(3, widget_py), (1, missing_py), (3, attr_py)], [(3, broken_py)]]
          demo_state)) =
     [(ResolveMethod app_py, Module 0), (ResolvedPath broken_py, Module 7),
      (ResolvedPath attr_py, Module 3)] \<and>
   suffix attr_py = ''.py'' \<and>
   fst (import_file demo_env attr_py
          (globals_of (snd (watch_changes demo_env [(3, widget_py)] demo_state)))) = Inr PyNone \<and>
   watch_changes demo_env [(3, widget_py), (1, attr_py), (3, broken_py)] demo_state =
     watch_changes demo_env [(3, broken_py)]
       (snd (watch_change demo_env (1, attr_py)
          (snd (watch_changes demo_env [(3, widget_py)] demo_state)))) \<and>
   length (sent (snd (watch_change demo_env (1, attr_py)
          (snd (watch_changes demo_env [(3, widget_py)] demo_state))))) = 2"
proof -
  let ?st1 = "snd (watch_changes demo_env [(3, widget_py)] demo_state)"
  let ?batches = "[[(3::int, widget_py), (1, missing_py), (3, attr_py)], [(3, broken_py)]]"
  have pre: "watch_changes demo_env [(3, widget_py)] demo_state = (None, ?st1)"
    by code_simp
  have py: "suffix missing_py = ''.py''"
    by code_simp
  have load: "fst (import_file demo_env missing_py (globals_of ?st1)) =
      Inl (OtherError ''FileNotFoundError'')"
    by code_simp
  have before: "sent ?st1 = [[]] \<and>
      modules ?st1 = [(ResolveMethod app_py, Module 0), (ResolvedPath broken_py, Module 7),
                      (ResolvedPath attr_py, Module 3)]"
    by code_simp
  from pre py load
  have "watch_changes demo_env [(3, widget_py)] demo_state = (None, ?st1) \<and>
      suffix missing_py = ''.py'' \<and>
      (((1::int) = 1 \<and> fst (import_file demo_env missing_py (globals_of ?st1)) =
          Inl (OtherError ''FileNotFoundError'')) \<or>
       ((1::int) \<noteq> 1 \<and> map_of (modules ?st1) (ResolvedPath (resolve demo_env missing_py)) = None \<and>
          OtherError ''FileNotFoundError'' = KeyError) \<or>
       ((1::int) = 2 \<and> map_of (modules ?st1) (ResolvedPath (resolve demo_env missing_py)) = Some PyNone \<and>
          fst (reload demo_env PyNone
            ((globals_of ?st1)\<lparr>components :=
               if resolve demo_env (joinpath (dash_path ?st1) ''components'') \<in> set (parents missing_py)
               then filter (\<lambda>c. resolve demo_env (source_path c) \<noteq> resolve demo_env missing_py)
                      (components ?st1)
               else components ?st1\<rparr>)) = Inl (OtherError ''FileNotFoundError'')))"
    by blast
  from failure_ends_the_watch_loop [THEN conjunct1, rule_format, OF this,
      of "[(3, attr_py)]" "[[(3, broken_py)]]"]
  obtain st2 where
    "watch_root demo_env (([(3, widget_py)] @ (1, missing_py) # [(3, attr_py)]) # [[(3, broken_py)]])
       demo_state = (Some (OtherError ''FileNotFoundError''), st2)"
    and "sent st2 = sent ?st1" and "modules st2 = modules ?st1"
    by blast
  with before have escaped: "fst (watch_root demo_env ?batches demo_state) =
       Some (OtherError ''FileNotFoundError'') \<and>
     sent (snd (watch_root demo_env ?batches demo_state)) = [[]] \<and>
     modules (snd (watch_root demo_env ?batches demo_state)) =
       [(ResolveMethod app_py, Module 0), (ResolvedPath broken_py, Module 7),
        (ResolvedPath attr_py, Module 3)]"
    by simp
  have py': "suffix attr_py = ''.py''"
    by code_simp
  have caught: "fst (import_file demo_env attr_py (globals_of ?st1)) = Inr PyNone"
    by code_simp
  from pre py' caught
  have "watch_changes demo_env [(3, widget_py)] demo_state = (None, ?st1) \<and>
      suffix attr_py = ''.py'' \<and> fst (import_file demo_env attr_py (globals_of ?st1)) = Inr PyNone"
    by blast
  from failure_ends_the_watch_loop [THEN conjunct2, rule_format, OF this, of "[(3, broken_py)]"]
  obtain st3 where one: "watch_change demo_env (1, attr_py) ?st1 = (None, st3)"
    and len: "length (sent st3) = Suc (length (sent ?st1))"
    and rest: "watch_changes demo_env ([(3, widget_py)] @ (1, attr_py) # [(3, broken_py)]) demo_state =
       watch_changes demo_env [(3, broken_py)] st3"
    by blast
  from one have st3: "st3 = snd (watch_change demo_env (1, attr_py) ?st1)"
    by simp
  from rest st3 have contained: "watch_changes demo_env [(3, widget_py), (1, attr_py), (3, broken_py)] demo_state =
     watch_changes demo_env [(3, broken_py)] (snd (watch_change demo_env (1, attr_py) ?st1))"
    by simp
  from len st3 before have two: "length (sent (snd (watch_change demo_env (1, attr_py) ?st1))) = 2"
    by simp
  from pre py load escaped py' caught contained two show ?thesis
    by blast
qed

text \<open>
  C10 fails as stated: on the non-empty string \<open>//[\<close> the parser raises ValueError,
  which \<open>uri_checker\<close> does not catch: the input is neither returned nor is URIError
  raised.
\<close>

theorem parser_error_counterexample:
  "''//['' \<noteq> [] \<and>
   uri_checker demo_urlparse ''//['' \<noteq> Inr ''//['' \<and>
   uri_checker demo_urlparse ''//['' \<noteq> Inl URIError \<and>
   uri_checker demo_urlparse ''//['' = Inl ValueError"
  by code_simp

text \<open>
  C10, amended: \<open>uri_checker\<close> applied to the empty string returns the empty string
  without raising; on a non-empty string that the parser accepts it returns the string
  unchanged when the parsed result has a non-empty path and raises URIError when the
  path is empty, and the test of the scheme never rejects, since a string is not the
  object \<open>True\<close>; an exception of the parser itself is not caught.
\<close>

theorem uri_checker_result:
  "uri_checker urlparse u =
     (if u = [] then Inr []
      else case urlparse u of
             Inl e \<Rightarrow> Inl e
           | Inr r \<Rightarrow> if path r \<noteq> [] then Inr u else Inl URIError)"
  by (simp add: uri_checker_def is_not_True_def split: sum.splits)

text \<open>
  C10, the amended claim at the empty string, at a path, at a URI without a path and
  at a string the parser refuses.
\<close>

theorem uri_checker_result_witness:
  "uri_checker demo_urlparse [] = Inr [] \<and>
   uri_checker demo_urlparse ''/home'' = Inr ''/home'' \<and>
   uri_checker demo_urlparse ''//host'' = Inl URIError \<and>
   uri_checker demo_urlparse ''//['' = Inl ValueError"
  using uri_checker_result [of demo_urlparse "[]"]
    uri_checker_result [of demo_urlparse "''/home''"]
    uri_checker_result [of demo_urlparse "''//host''"]
    uri_checker_result [of demo_urlparse "''//[''"]
  by (simp add: demo_urlparse_def)

end
